theory Spec2Isabelle
  imports Complex_Main "HOL-Library.Word"
begin

unbundle bit_operations_syntax

section \<open>Go values, panics and the helpers of package utils\<close>

text \<open>
  How a call of a method of a value ends: it returns its string, or it panics with a
  payload of type \<open>'p\<close>.
\<close>

datatype 'p call = Returns string | Panics 'p

text \<open>
  A value of Go's empty interface. \<open>GoNil\<close> is the nil interface value. A \<open>GoObject\<close>
  is a value of a named type: its type name, how a call of its \<open>String()\<close> method ends
  when the type implements \<open>fmt.Stringer\<close>, and how a call of its \<open>Error()\<close> method ends
  when the type implements \<open>error\<close>. The two methods are the payload's own code: they may
  panic, as a method with a pointer receiver does on a nil pointer that it dereferences.
\<close>

datatype go_value =
    GoNil
  | GoString string
  | GoInt int
  | GoObject string "go_value call option" "go_value call option"

text \<open>\<open>fmt.Errorf\<close> and \<open>errors.New\<close>: an error value that carries its message.\<close>

definition Errorf :: "string \<Rightarrow> go_value" where
  "Errorf m = GoObject ''*errors.errorString'' None (Some (Returns m))"

text \<open>
  How a call ends: it returns its \<open>error\<close> result (\<open>GoNil\<close> is the nil error), or it
  panics with a payload.
\<close>

datatype outcome = Returned go_value | Panicked go_value

text \<open>
  Modelled from the spec: \<open>utils.PanicIfF(cond, format, args...)\<close> is not among the source
  files; the spec calls the conditions it guards fatal errors that are raised
  immediately. The model raises a panic when the condition holds; the payload is the
  message template (the formatting of the arguments is not modelled).
\<close>

definition PanicIfF :: "bool \<Rightarrow> string \<Rightarrow> go_value + unit" where
  "PanicIfF cond format = (if cond then Inl (GoString format) else Inr ())"

section \<open>Metric accumulator (visibility/metrics.go)\<close>

text \<open>
  \<open>float64\<close> values are modelled by the real numbers they denote; rounding and overflow
  of the floating-point operations are outside the model. \<open>time.Time\<close> is a number of
  nanoseconds, \<open>time.Duration\<close> likewise.
\<close>

type_synonym float64 = real
type_synonym time = int

text \<open>
  \<open>cloudwatch.StandardUnit\<close> is a string type with the named constants below; a string
  that is none of them is \<open>StandardUnitOther\<close>.
\<close>

datatype StandardUnit =
    StandardUnitSeconds | StandardUnitMicroseconds | StandardUnitMilliseconds
  | StandardUnitBytes | StandardUnitKilobytes | StandardUnitMegabytes
  | StandardUnitGigabytes | StandardUnitTerabytes
  | StandardUnitBits | StandardUnitKilobits | StandardUnitMegabits
  | StandardUnitGigabits | StandardUnitTerabits
  | StandardUnitPercent | StandardUnitCount
  | StandardUnitBytesSecond | StandardUnitKilobytesSecond | StandardUnitMegabytesSecond
  | StandardUnitGigabytesSecond | StandardUnitTerabytesSecond
  | StandardUnitBitsSecond | StandardUnitKilobitsSecond | StandardUnitMegabitsSecond
  | StandardUnitGigabitsSecond | StandardUnitTerabitsSecond
  | StandardUnitCountSecond | StandardUnitNone
  | StandardUnitOther string

record MetricEntry =
  Val :: float64
  Unit :: StandardUnit
  Timestamp :: time

fun Normalize :: "MetricEntry \<Rightarrow> float64 \<times> StandardUnit" where
  "Normalize e =
    (case Unit e of
       StandardUnitSeconds \<Rightarrow> (Val e * 1000000, StandardUnitMicroseconds)
     | StandardUnitMicroseconds \<Rightarrow> (Val e, StandardUnitMicroseconds)
     | StandardUnitMilliseconds \<Rightarrow> (Val e * 1000, StandardUnitMicroseconds)
     | StandardUnitBytes \<Rightarrow> (Val e, StandardUnitBytes)
     | StandardUnitKilobytes \<Rightarrow> (Val e * 1024, StandardUnitBytes)
     | StandardUnitMegabytes \<Rightarrow> (Val e * 1024 * 1024, StandardUnitBytes)
     | StandardUnitGigabytes \<Rightarrow> (Val e * 1024 * 1024 * 1024, StandardUnitBytes)
     | StandardUnitTerabytes \<Rightarrow> (Val e * 1024 * 1024 * 1024 * 1024, StandardUnitBytes)
     | StandardUnitBits \<Rightarrow> (Val e, StandardUnitBits)
     | StandardUnitKilobits \<Rightarrow> (Val e * 1024, StandardUnitBits)
     | StandardUnitMegabits \<Rightarrow> (Val e * 1024 * 1024, StandardUnitBits)
     | StandardUnitGigabits \<Rightarrow> (Val e * 1024 * 1024 * 1024, StandardUnitBits)
     | StandardUnitTerabits \<Rightarrow> (Val e * 1024 * 1024 * 1024 * 1024, StandardUnitBits)
     | StandardUnitPercent \<Rightarrow> (Val e, StandardUnitPercent)
     | StandardUnitCount \<Rightarrow> (Val e, StandardUnitCount)
     | StandardUnitBytesSecond \<Rightarrow> (Val e, StandardUnitBytesSecond)
     | StandardUnitKilobytesSecond \<Rightarrow> (Val e * 1024, StandardUnitBytesSecond)
     | StandardUnitMegabytesSecond \<Rightarrow> (Val e * 1024 * 1024, StandardUnitBytesSecond)
     | StandardUnitGigabytesSecond \<Rightarrow> (Val e * 1024 * 1024 * 1024, StandardUnitBytesSecond)
     | StandardUnitTerabytesSecond \<Rightarrow>
         (Val e * 1024 * 1024 * 1024 * 1024, StandardUnitBytesSecond)
     | StandardUnitBitsSecond \<Rightarrow> (Val e, StandardUnitBitsSecond)
     | StandardUnitKilobitsSecond \<Rightarrow> (Val e * 1024, StandardUnitBitsSecond)
     | StandardUnitMegabitsSecond \<Rightarrow> (Val e * 1024 * 1024, StandardUnitBitsSecond)
     | StandardUnitGigabitsSecond \<Rightarrow> (Val e * 1024 * 1024 * 1024, StandardUnitBitsSecond)
     | StandardUnitTerabitsSecond \<Rightarrow>
         (Val e * 1024 * 1024 * 1024 * 1024, StandardUnitBitsSecond)
     | StandardUnitCountSecond \<Rightarrow> (Val e, StandardUnitCountSecond)
     | StandardUnitNone \<Rightarrow> (Val e, StandardUnitNone)
     | StandardUnitOther s \<Rightarrow> (Val e, StandardUnitNone))"

text \<open>
  The accumulator. The Go map holds pointers to entries; a name that is absent reads as
  the nil pointer, here \<open>None\<close>. The lock is held for the whole of every method, so each
  method is one atomic step on the state.
\<close>

record MetricsContext =
  OpName :: string
  Metrics :: "string \<rightharpoonup> MetricEntry"

definition MakeMetricContext :: "string \<Rightarrow> MetricsContext" where
  "MakeMetricContext opName = \<lparr>OpName = opName, Metrics = Map.empty\<rparr>"

definition Reset :: "MetricsContext \<Rightarrow> MetricsContext" where
  "Reset m = m\<lparr>Metrics := Map.empty\<rparr>"

definition GetMetric :: "MetricsContext \<Rightarrow> string \<Rightarrow> float64 \<times> StandardUnit" where
  "GetMetric m name =
    (case Metrics m name of
       None \<Rightarrow> (0, StandardUnitNone)
     | Some curVal \<Rightarrow> (Val curVal, Unit curVal))"

definition GetMetricVal :: "MetricsContext \<Rightarrow> string \<Rightarrow> float64" where
  "GetMetricVal m name = fst (GetMetric m name)"

text \<open>
  \<open>AddMetric\<close> either returns with the accumulator updated (\<open>Inr\<close>) or panics (\<open>Inl\<close>, the
  payload); it panics before it writes, so a panic leaves the accumulator as it was.
  The first argument is the reading of \<open>time.Now()\<close>.
\<close>

definition AddMetric ::
  "time \<Rightarrow> string \<Rightarrow> float64 \<Rightarrow> StandardUnit \<Rightarrow> MetricsContext \<Rightarrow> go_value + MetricsContext"
where
  "AddMetric now name val unit m =
    (case Metrics m name of
       None \<Rightarrow>
         Inr (m\<lparr>Metrics := (Metrics m)(name \<mapsto> \<lparr>Val = val, Unit = unit, Timestamp = now\<rparr>)\<rparr>)
     | Some curVal \<Rightarrow>
         (case PanicIfF (Unit curVal \<noteq> unit) ''inconsistent unit assignment, was %s want %s'' of
            Inl p \<Rightarrow> Inl p
          | Inr _ \<Rightarrow>
              Inr (m\<lparr>Metrics := (Metrics m)(name \<mapsto> curVal\<lparr>Val := Val curVal + val\<rparr>)\<rparr>)))"

definition SetMetric ::
  "time \<Rightarrow> string \<Rightarrow> float64 \<Rightarrow> StandardUnit \<Rightarrow> MetricsContext \<Rightarrow> MetricsContext"
where
  "SetMetric now name val unit m =
    m\<lparr>Metrics := (Metrics m)(name \<mapsto> \<lparr>Val = val, Unit = unit, Timestamp = now\<rparr>)\<rparr>"

definition AddCount ::
  "time \<Rightarrow> string \<Rightarrow> float64 \<Rightarrow> MetricsContext \<Rightarrow> go_value + MetricsContext"
where
  "AddCount now name val m = AddMetric now name val StandardUnitCount m"

definition SetCount :: "time \<Rightarrow> string \<Rightarrow> float64 \<Rightarrow> MetricsContext \<Rightarrow> MetricsContext" where
  "SetCount now name val m = SetMetric now name val StandardUnitCount m"

text \<open>\<open>Duration.Seconds()\<close>: the duration in nanoseconds, as a floating-point number of seconds.\<close>

definition Seconds :: "time \<Rightarrow> float64" where
  "Seconds d = real_of_int d / 1000000000"

definition AddDuration ::
  "time \<Rightarrow> string \<Rightarrow> time \<Rightarrow> MetricsContext \<Rightarrow> go_value + MetricsContext"
where
  "AddDuration now name duration m = AddMetric now name (Seconds duration) StandardUnitSeconds m"

definition SetDuration :: "time \<Rightarrow> string \<Rightarrow> time \<Rightarrow> MetricsContext \<Rightarrow> MetricsContext" where
  "SetDuration now name duration m = SetMetric now name (Seconds duration) StandardUnitSeconds m"

section \<open>Outcome classification (visibility/runner.go, InstrumentWithMetrics)\<close>

text \<open>
  The scope is represented by the accumulator it carries (\<open>GetMetricsFromContext\<close> panics
  on a scope without one, before anything else is done). The body \<open>fn\<close> receives the
  scope, and through it the accumulator, which it may update (the tests' bodies do); so a
  body is a function from the accumulator it finds to how it ends and the accumulator it
  leaves.
\<close>

type_synonym body = "MetricsContext \<Rightarrow> outcome \<times> MetricsContext"

text \<open>
  One statement that may panic, followed by the rest of the function. The accumulator's
  methods panic before they write, so the state at a panic is the state before the
  statement.
\<close>

definition seq ::
  "(MetricsContext \<Rightarrow> go_value + MetricsContext) \<Rightarrow> body \<Rightarrow> body"
where
  "seq step rest m = (case step m of Inl p \<Rightarrow> (Panicked p, m) | Inr m' \<Rightarrow> rest m')"

record TimeMeasurement =
  name :: string
  start :: time

definition Benchmark :: "time \<Rightarrow> string \<Rightarrow> TimeMeasurement" where
  "Benchmark now n = \<lparr>name = n, start = now\<rparr>"

definition Done :: "time \<Rightarrow> TimeMeasurement \<Rightarrow> MetricsContext \<Rightarrow> go_value + MetricsContext" where
  "Done now t m = AddDuration now (name t) (now - start t) m"

text \<open>
  A deferred call runs when the function leaves, whether by return or by panic. If the
  deferred call itself panics, that panic is the one the caller sees.
\<close>

definition deferred ::
  "(MetricsContext \<Rightarrow> go_value + MetricsContext) \<Rightarrow> outcome \<times> MetricsContext
    \<Rightarrow> outcome \<times> MetricsContext"
where
  "deferred call r =
    (case call (snd r) of Inl p \<Rightarrow> (Panicked p, snd r) | Inr m' \<Rightarrow> (fst r, m'))"

text \<open>
  The statements of \<open>InstrumentWithMetrics\<close> after \<open>defer bench.Done()\<close>. \<open>t1\<close> is the
  clock when the body has ended.
\<close>

definition classify :: "time \<Rightarrow> body \<Rightarrow> body" where
  "classify t1 fn m =
    (case fn m of
       (Panicked p, m') \<Rightarrow> (Panicked p, m')
     | (Returned err, m') \<Rightarrow>
         seq (AddCount t1 ''Fault'' (- 1))
           (if err = GoNil
            then seq (AddCount t1 ''Success'' 1) (\<lambda>m. (Returned err, m))
            else seq (AddCount t1 ''Error'' 1) (\<lambda>m. (Returned err, m))) m')"

text \<open>\<open>t0\<close> is the clock on entry, \<open>t1\<close> the clock when the body has ended.\<close>

definition InstrumentWithMetrics :: "time \<Rightarrow> time \<Rightarrow> body \<Rightarrow> body" where
  "InstrumentWithMetrics t0 t1 fn =
    seq (AddCount t0 ''Success'' 0)
     (seq (AddCount t0 ''Error'' 0)
       (seq (AddCount t0 ''Fault'' 1)
         (\<lambda>m. deferred (Done t1 (Benchmark t0 ''Time'')) (classify t1 fn m))))"

section \<open>Stack capturer\<close>

subsection \<open>The functions of package strings and strconv that the capturer calls\<close>

text \<open>
  Go strings are byte strings. Every separator the capturer passes is one byte, so the
  functions take the separator as a character. As in Go, an index is \<open>-1\<close> when the
  separator does not occur.
\<close>

definition strings_Count :: "string \<Rightarrow> char \<Rightarrow> nat" where
  "strings_Count s sep = length (filter (\<lambda>c. c = sep) s)"

fun strings_Index :: "string \<Rightarrow> char \<Rightarrow> int" where
  "strings_Index [] sep = - 1"
| "strings_Index (c # cs) sep =
    (if c = sep then 0
     else (let i = strings_Index cs sep in if i = - 1 then - 1 else i + 1))"

fun strings_LastIndex :: "string \<Rightarrow> char \<Rightarrow> int" where
  "strings_LastIndex [] sep = - 1"
| "strings_LastIndex (c # cs) sep =
    (let i = strings_LastIndex cs sep
     in if i \<noteq> - 1 then i + 1 else if c = sep then 0 else - 1)"

definition strings_HasPrefix :: "string \<Rightarrow> string \<Rightarrow> bool" where
  "strings_HasPrefix s pre = (take (length pre) s = pre)"

function decimal :: "nat \<Rightarrow> string" where
  "decimal n =
    (if n < 10 then [''0123456789'' ! n]
     else decimal (n div 10) @ [''0123456789'' ! (n mod 10)])"
  by pat_completeness auto
termination
  by (relation "measure id") auto

declare decimal.simps [simp del]

definition Itoa :: "int \<Rightarrow> string" where
  "Itoa i = (if i < 0 then ''-'' @ decimal (nat (- i)) else decimal (nat i))"

subsection \<open>Frames and their rendering\<close>

text \<open>The fields of \<open>runtime.Frame\<close> that the capturer reads.\<close>

record Frame =
  File :: string
  Line :: int
  Function :: string

text \<open>
  The loop of \<open>parseFrame\<close>: \<open>g\<close> is the number of iterations left, \<open>i\<close> the current
  cut. \<open>path[:i]\<close> is \<open>take\<close>, \<open>path[i+1:]\<close> is \<open>drop\<close>; every index the function
  computes lies within the string, so no slice expression can raise.
\<close>

fun stripLoop :: "nat \<Rightarrow> string \<Rightarrow> int \<Rightarrow> int" where
  "stripLoop 0 path i = i"
| "stripLoop (Suc g) path i =
    (let i' = strings_LastIndex (take (nat i) path) CHR ''/''
     in if i' = - 1 then - 1 else stripLoop g path i')"

definition parseFrame :: "Frame \<Rightarrow> string \<times> int \<times> string" where
  "parseFrame frame =
    (let path = File frame; line = Line frame; label = Function frame;
         i = stripLoop (strings_Count label CHR ''/'' + 2) path (int (length path));
         path = drop (nat (i + 1)) path;
         label = drop (nat (strings_LastIndex label CHR ''/'' + 1)) label;
         label = drop (nat (strings_Index label CHR ''.'' + 1)) label
     in (path, line, label))"

text \<open>The test both loops apply to a parsed frame: the runtime's panic trampoline.\<close>

definition isGopanic :: "Frame \<Rightarrow> bool" where
  "isGopanic frame =
    (case parseFrame frame of
       (path, line, label) \<Rightarrow> strings_HasPrefix path ''runtime/panic'' \<and> label = ''gopanic'')"

text \<open>
  \<open>stack\<close> holds the frames that \<open>runtime.CallersFrames\<close> yields for the captured program
  counters, innermost first.
\<close>

record ShortenedStackTrace =
  skipToFirstPanic :: bool
  stack :: "Frame list"
  msg :: string

record StackElement =
  Fl :: string
  Fn :: string

text \<open>
  All three loops have the form
  \<open>for frame, more := frames.Next(); more; frame, more = frames.Next()\<close>: \<open>Next\<close> reports
  \<open>more = false\<close> together with the last frame, so the body runs for every frame but the
  last one (and not at all for an empty stack), as the source's comment says.
\<close>

definition iterated :: "ShortenedStackTrace \<Rightarrow> Frame list" where
  "iterated s = butlast (stack s)"

fun countLoop :: "Frame list \<Rightarrow> int \<Rightarrow> int" where
  "countLoop [] panics = panics"
| "countLoop (frame # frames) panics =
    (if isGopanic frame then countLoop frames (panics + 1) else countLoop frames panics)"

definition countPanics :: "ShortenedStackTrace \<Rightarrow> int" where
  "countPanics s = countLoop (iterated s) 0"

definition element :: "Frame \<Rightarrow> StackElement" where
  "element frame =
    (case parseFrame frame of
       (path, line, label) \<Rightarrow> \<lparr>Fl = path @ '':'' @ Itoa line, Fn = label\<rparr>)"

fun jsonLoop :: "Frame list \<Rightarrow> int \<Rightarrow> StackElement list \<Rightarrow> StackElement list" where
  "jsonLoop [] panicsToSkip stackElements = stackElements"
| "jsonLoop (frame # frames) panicsToSkip stackElements =
    (if panicsToSkip > 0 \<and> isGopanic frame then jsonLoop frames (panicsToSkip - 1) stackElements
     else if panicsToSkip > 0 then jsonLoop frames panicsToSkip stackElements
     else jsonLoop frames panicsToSkip (stackElements @ [element frame]))"

definition JSONStack :: "ShortenedStackTrace \<Rightarrow> StackElement list" where
  "JSONStack s =
    jsonLoop (iterated s) (if skipToFirstPanic s then countPanics s else 0) []"

definition line_of :: "Frame \<Rightarrow> string" where
  "line_of frame =
    (case parseFrame frame of
       (path, line, label) \<Rightarrow> path @ '':'' @ Itoa line @ '' '' @ label @ [CHR 0x0A])"

fun stringLoop :: "Frame list \<Rightarrow> int \<Rightarrow> string \<Rightarrow> string" where
  "stringLoop [] panicsToSkip res = res"
| "stringLoop (frame # frames) panicsToSkip res =
    (if panicsToSkip > 0 \<and> isGopanic frame then stringLoop frames (panicsToSkip - 1) res
     else if panicsToSkip > 0 then stringLoop frames panicsToSkip res
     else stringLoop frames panicsToSkip (res @ line_of frame))"

definition StringStack :: "ShortenedStackTrace \<Rightarrow> string" where
  "StringStack s =
    stringLoop (iterated s) (if skipToFirstPanic s then countPanics s else 0) []"

subsection \<open>The message of a panic\<close>

text \<open>
  \<open>msg.(fmt.Stringer)\<close> and \<open>msg.(error)\<close> in their two-result form: the method when the
  dynamic type has it, and no panic when it has not.
\<close>

fun asStringer :: "go_value \<Rightarrow> go_value call option" where
  "asStringer (GoObject t s e) = s"
| "asStringer v = None"

fun asError :: "go_value \<Rightarrow> go_value call option" where
  "asError (GoObject t s e) = e"
| "asError v = None"

text \<open>
  \<open>reflect.ValueOf(v).String()\<close>: the string itself for a string, and \<open><T Value>\<close> for a
  value of any other type \<open>T\<close>; unlike the other getters of \<open>reflect.Value\<close> it never
  panics. A \<open>GoObject\<close> is of a type that is not a string type.
\<close>

fun reflect_String :: "go_value \<Rightarrow> string" where
  "reflect_String GoNil = ''<invalid Value>''"
| "reflect_String (GoString s) = s"
| "reflect_String (GoInt i) = ''<int Value>''"
| "reflect_String (GoObject t s e) = ''<'' @ t @ '' Value>''"

text \<open>
  The call of a method of the payload: its string (\<open>Inr\<close>), or its panic, which nothing
  in \<open>convertPanicMsg\<close> recovers (\<open>Inl\<close>).
\<close>

fun invoke :: "go_value call \<Rightarrow> go_value + string" where
  "invoke (Returns s) = Inr s"
| "invoke (Panics q) = Inl q"

definition convertPanicMsg :: "go_value \<Rightarrow> go_value + string" where
  "convertPanicMsg m =
    (if m = GoNil then Inr ''recovered from panic''
     else (case asStringer m of
             Some stringer \<Rightarrow> invoke stringer
           | None \<Rightarrow>
               (case asError m of
                  Some err \<Rightarrow> invoke err
                | None \<Rightarrow> Inr (reflect_String m))))"

text \<open>
  The case order as the specification words it: string conversion, then error message,
  then the nil payload, then the reflective conversion.
\<close>

definition convertPanicMsg_spec :: "go_value \<Rightarrow> go_value + string" where
  "convertPanicMsg_spec m =
    (case asStringer m of
       Some stringer \<Rightarrow> invoke stringer
     | None \<Rightarrow>
         (case asError m of
            Some err \<Rightarrow> invoke err
          | None \<Rightarrow>
              Inr (if m = GoNil then ''recovered from panic'' else reflect_String m)))"

text \<open>
  \<open>goroutine\<close> is the calling goroutine's stack as \<open>runtime.Callers\<close> sees it, innermost
  first, beginning with the frame of \<open>runtime.Callers\<close> itself; at most 40 entries are
  captured after the skipped ones. The constructor panics when the conversion of the
  message does.
\<close>

definition NewShortenedStackTrace ::
  "Frame list \<Rightarrow> nat \<Rightarrow> bool \<Rightarrow> go_value \<Rightarrow> go_value + ShortenedStackTrace"
where
  "NewShortenedStackTrace goroutine skipFrames skipToFirst m =
    (case convertPanicMsg m of
       Inl q \<Rightarrow> Inl q
     | Inr converted \<Rightarrow>
         Inr \<lparr>skipToFirstPanic = skipToFirst,
              stack = take 40 (drop skipFrames goroutine),
              msg = converted\<rparr>)"

section \<open>Multi-value scope\<close>

text \<open>
  The embedded parent \<open>context.Context\<close> is represented by its \<open>Value\<close> method. Reading a
  Go map at a key it does not hold gives the zero value, which for an interface is nil.
\<close>

record MultiValueContext =
  Context :: "go_value \<Rightarrow> go_value"
  data :: "go_value \<rightharpoonup> go_value"

definition mapRead :: "(go_value \<rightharpoonup> go_value) \<Rightarrow> go_value \<Rightarrow> go_value" where
  "mapRead mp k = (case mp k of None \<Rightarrow> GoNil | Some v \<Rightarrow> v)"

text \<open>The loop of \<open>NewMultiValueContext\<close>, for \<open>i\<close> from 0 below \<open>len(dataList)/2\<close>.\<close>

definition populate :: "go_value list \<Rightarrow> (go_value \<rightharpoonup> go_value)" where
  "populate dataList =
    fold (\<lambda>i mp. mp(dataList ! (i * 2) \<mapsto> mapRead mp (dataList ! (i * 2 + 1))))
      [0 ..< length dataList div 2] Map.empty"

definition NewMultiValueContext ::
  "(go_value \<Rightarrow> go_value) \<Rightarrow> go_value list \<Rightarrow> go_value + MultiValueContext"
where
  "NewMultiValueContext parent dataList =
    (case PanicIfF (length dataList mod 2 \<noteq> 0) ''data must be a list of keys and values'' of
       Inl p \<Rightarrow> Inl p
     | Inr _ \<Rightarrow> Inr \<lparr>Context = parent, data = populate dataList\<rparr>)"

definition Value :: "MultiValueContext \<Rightarrow> go_value \<Rightarrow> go_value" where
  "Value m key = (case data m key of Some val \<Rightarrow> val | None \<Rightarrow> Context m key)"

section \<open>Instrumented execution (visibility/runner.go, RunInstrumented)\<close>

datatype tag_value = TagString string | TagFloat float64

datatype finish = Open | Finished | FinishedWithError go_value

text \<open>A span of the tracer, as far as the wrapper writes to it.\<close>

record Span =
  operationName :: string
  tags :: "string \<rightharpoonup> tag_value"
  finished :: finish

definition StartSpan :: "string \<Rightarrow> Span" where
  "StartSpan n =
    \<lparr>operationName = n, tags = [''span.type'' \<mapsto> TagString ''background''], finished = Open\<rparr>"

definition SetTag :: "string \<Rightarrow> tag_value \<Rightarrow> Span \<Rightarrow> Span" where
  "SetTag key v sp = sp\<lparr>tags := (tags sp)(key \<mapsto> v)\<rparr>"

definition SetOperationName :: "string \<Rightarrow> Span \<Rightarrow> Span" where
  "SetOperationName n sp = sp\<lparr>operationName := n\<rparr>"

definition Finish :: "Span \<Rightarrow> Span" where
  "Finish sp = sp\<lparr>finished := Finished\<rparr>"

definition FinishWithError :: "go_value \<Rightarrow> Span \<Rightarrow> Span" where
  "FinishWithError err sp = sp\<lparr>finished := FinishedWithError err\<rparr>"

text \<open>
  The scope as \<open>RunInstrumented\<close> reads it: the logger it was imbued with, if any, and the
  client classification, if any.
\<close>

record Scope =
  logger :: "string option"
  clientType :: "string option"

definition ClientTypeTag :: string where "ClientTypeTag = ''client-type''"
definition ClientTypeNormal :: string where "ClientTypeNormal = ''normal''"

definition GetClientTypeFromContext :: "Scope \<Rightarrow> string" where
  "GetClientTypeFromContext ctx =
    (case clientType ctx of None \<Rightarrow> ClientTypeNormal | Some v \<Rightarrow> v)"

text \<open>
  What lies outside the repository: \<open>fmt.Sprintf("%v", p)\<close>; the unit's exported name
  (\<open>normalizeUnitName\<close> rests on \<open>utils.ToSnakeCase\<close>, which is not among the source
  files); the order in which \<open>range\<close> visits the names of the accumulator's map; and the
  stack of the goroutine at the moment the deferred handler captures it.
\<close>

record Env =
  sprint_v :: "go_value \<Rightarrow> string"
  normalizeUnitName :: "StandardUnit \<Rightarrow> string"
  rangeOrder :: "MetricsContext \<Rightarrow> string list"
  goroutine :: "Frame list"

definition CopyToSpan :: "Env \<Rightarrow> MetricsContext \<Rightarrow> Span \<Rightarrow> Span" where
  "CopyToSpan env m sp =
    fold (\<lambda>n sp. case Metrics m n of
                    None \<Rightarrow> sp
                  | Some val \<Rightarrow>
                      (case Normalize val of
                         (normVal, normUnit) \<Rightarrow>
                           (let sp = SetTag n (TagFloat normVal) sp
                            in if normUnit \<noteq> StandardUnitCount
                               then SetTag (n @ ''_unit'')
                                      (TagString (normalizeUnitName env normUnit)) sp
                               else sp)))
      (rangeOrder env m) sp"

type_synonym sample = "string \<times> float64 \<times> string list"

definition CopyToStatsd :: "Env \<Rightarrow> MetricsContext \<Rightarrow> string \<Rightarrow> sample list" where
  "CopyToStatsd env m ct =
    concat (map (\<lambda>n. case Metrics m n of
                        None \<Rightarrow> []
                      | Some val \<Rightarrow>
                          (case Normalize val of
                             (normVal, normUnit) \<Rightarrow>
                               [(OpName m @ ''.'' @ n, normVal,
                                 [''unit:'' @ normalizeUnitName env normUnit,
                                  ''client-type:'' @ ct])]))
            (rangeOrder env m))"

text \<open>
  What a run leaves behind: how the call ended, the span (none when the call panicked
  before the span was started), and the samples sent to the metrics sink.
\<close>

record RunResult =
  ended :: outcome
  traced :: "Span option"
  samples :: "sample list"

text \<open>
  The deferred handler. \<open>recover()\<close> returns the payload of the panic in flight and ends
  the panic; it returns nil when there is no panic, and also, under the language version
  the module declares (go 1.13), when the payload itself is nil. In the second branch the
  function returns its \<open>err\<close>, which a panicking body never assigned. The message handed
  to \<open>NewShortenedStackTrace\<close> is a string, whose conversion always returns.
\<close>

definition handler :: "Env \<Rightarrow> outcome \<Rightarrow> Span \<Rightarrow> outcome \<times> Span" where
  "handler env r sp =
    (let p = (case r of Panicked q \<Rightarrow> q | Returned e \<Rightarrow> GoNil);
         err = (case r of Panicked q \<Rightarrow> GoNil | Returned e \<Rightarrow> e)
     in if p \<noteq> GoNil then
          (case NewShortenedStackTrace (goroutine env) 3 True (GoString (sprint_v env p)) of
             Inl q \<Rightarrow> (Panicked q, sp)
           | Inr st \<Rightarrow>
               (let sp = SetTag ''error.stack'' (TagString (StringStack st)) sp;
                    sp = SetTag ''panic'' (TagString (sprint_v env p)) sp;
                    sp = FinishWithError (Errorf (''gopanic: '' @ sprint_v env p)) sp
                in (Panicked p, sp)))
        else if err \<noteq> GoNil then (Returned err, FinishWithError err sp)
        else (Returned err, Finish sp))"

text \<open>
  The body runs on the fresh accumulator of the derived scope. The deferred calls run
  last-in first-out when the body has ended, by return or by panic: \<open>CopyToSpan\<close>, then
  \<open>CopyToStatsd\<close>, then the handler. \<open>CL\<close> panics on a scope without a logger, before the
  span is started.
\<close>

definition RunInstrumented :: "Env \<Rightarrow> Scope \<Rightarrow> string \<Rightarrow> body \<Rightarrow> RunResult" where
  "RunInstrumented env ctx n fn =
    (case logger ctx of
       None \<Rightarrow>
         \<lparr>ended = Panicked (GoString ''Trying to log from an un-imbued context''),
          traced = None, samples = []\<rparr>
     | Some lg \<Rightarrow>
         (let ct = GetClientTypeFromContext ctx;
              sp = StartSpan n;
              sp = SetTag ''resource.name'' (TagString n) sp;
              sp = SetTag ClientTypeTag (TagString ct) sp;
              sp = SetOperationName n sp;
              met = MakeMetricContext n;
              (r, met) = fn met;
              sp = CopyToSpan env met sp;
              out = CopyToStatsd env met ct;
              (r, sp) = handler env r sp
          in \<lparr>ended = r, traced = Some sp, samples = out\<rparr>))"

section \<open>Process supervisor (visibility/process_registry.go)\<close>

text \<open>
  A process context is its name and the identity of its completion channel; its parent
  is the registry that every operation below takes and returns.
\<close>

record ProcessContext =
  Name :: string
  Done_chan :: nat

text \<open>A task started with \<open>go\<close>: which context it serves, its body, and for a periodic task its period.\<close>

datatype 'p task = OneShot ProcessContext 'p | Periodic ProcessContext time 'p

text \<open>
  \<open>runningGroups\<close> is the counter of the \<open>sync.WaitGroup\<close>; \<open>goroutines\<close> lists the tasks
  started so far, \<open>closedChannels\<close> the completion channels closed so far. Every method
  holds the registry's lock from entry to exit, so each is one step on this state.
\<close>

record 'p ProcessRegistry =
  numRunning :: "64 word"
  processes :: "string \<rightharpoonup> ProcessContext"
  runningGroups :: int
  goroutines :: "'p task list"
  closedChannels :: "nat set"

definition NewProcessRegistry :: "'p ProcessRegistry" where
  "NewProcessRegistry =
    \<lparr>numRunning = 0, processes = Map.empty, runningGroups = 0, goroutines = [],
     closedChannels = {}\<rparr>"

definition HasProcess :: "'p ProcessRegistry \<Rightarrow> string \<Rightarrow> bool" where
  "HasProcess p n = (processes p n \<noteq> None)"

definition CreateProcessContext :: "nat \<Rightarrow> string \<Rightarrow> ProcessContext" where
  "CreateProcessContext ch n = \<lparr>Name = n, Done_chan = ch\<rparr>"

definition prepareRun :: "ProcessContext \<Rightarrow> 'p ProcessRegistry \<Rightarrow> bool \<times> 'p ProcessRegistry" where
  "prepareRun pc p =
    (if processes p (Name pc) \<noteq> None then (False, p)
     else (True, p\<lparr>processes := (processes p)(Name pc \<mapsto> pc),
                    numRunning := numRunning p + 1,
                    runningGroups := runningGroups p + 1\<rparr>))"

definition TryRun :: "ProcessContext \<Rightarrow> 'p \<Rightarrow> 'p ProcessRegistry \<Rightarrow> bool \<times> 'p ProcessRegistry" where
  "TryRun pc proc p =
    (case prepareRun pc p of
       (res, p') \<Rightarrow>
         if \<not> res then (False, p')
         else (True, p'\<lparr>goroutines := goroutines p' @ [OneShot pc proc]\<rparr>))"

text \<open>\<open>Run\<close> returns nothing; \<open>Some\<close> is the payload of its panic.\<close>

definition Run ::
  "ProcessContext \<Rightarrow> 'p \<Rightarrow> 'p ProcessRegistry \<Rightarrow> go_value option \<times> 'p ProcessRegistry"
where
  "Run pc proc p =
    (case TryRun pc proc p of
       (res, p') \<Rightarrow>
         if \<not> res then (Some (GoString (''There's already a process named: '' @ Name pc)), p')
         else (None, p'))"

text \<open>
  \<open>WaitGroup.Done\<close> lowers the counter and panics when it falls below zero; the deletion
  and the decrement of \<open>numRunning\<close> (an addition of \<open>^uint64(0)\<close>) are done by then.
\<close>

definition markDone :: "string \<Rightarrow> 'p ProcessRegistry \<Rightarrow> go_value option \<times> 'p ProcessRegistry" where
  "markDone s p =
    (let p = p\<lparr>processes := (processes p)(s := None)\<rparr>;
         p = p\<lparr>numRunning := numRunning p + NOT 0\<rparr>;
         p = p\<lparr>runningGroups := runningGroups p - 1\<rparr>
     in if runningGroups p < 0 then (Some (GoString ''sync: negative WaitGroup counter''), p)
        else (None, p))"

definition RunPeriodicProcess ::
  "time \<Rightarrow> ProcessContext \<Rightarrow> 'p \<Rightarrow> 'p ProcessRegistry \<Rightarrow> 'p ProcessRegistry"
where
  "RunPeriodicProcess period pc proc p =
    (case prepareRun pc p of
       (res, p') \<Rightarrow> p'\<lparr>goroutines := goroutines p' @ [Periodic pc period proc]\<rparr>)"

text \<open>
  The end of a task of either kind: its deferred calls run last-in first-out, first
  \<open>markDone\<close>, then the closing of the completion channel, which panics on a channel
  that is closed already.
\<close>

definition exits :: "ProcessContext \<Rightarrow> 'p ProcessRegistry \<Rightarrow> go_value option \<times> 'p ProcessRegistry" where
  "exits pc p =
    (case markDone (Name pc) p of
       (r, p') \<Rightarrow>
         if Done_chan pc \<in> closedChannels p'
         then (Some (GoString ''close of closed channel''), p')
         else (r, p'\<lparr>closedChannels := insert (Done_chan pc) (closedChannels p')\<rparr>))"

section \<open>Vocabulary of the statements, and example stacks\<close>

text \<open>
  The accumulator as the body of \<open>InstrumentWithMetrics\<close> finds it when the wrapper was
  entered on a fresh accumulator at clock \<open>t0\<close>: the three counters, pre-set.
\<close>

definition asFound :: "time \<Rightarrow> string \<Rightarrow> MetricsContext" where
  "asFound t0 opn =
    \<lparr>OpName = opn,
     Metrics = [''Success'' \<mapsto> \<lparr>Val = 0, Unit = StandardUnitCount, Timestamp = t0\<rparr>,
                ''Error'' \<mapsto> \<lparr>Val = 0, Unit = StandardUnitCount, Timestamp = t0\<rparr>,
                ''Fault'' \<mapsto> \<lparr>Val = 1, Unit = StandardUnitCount, Timestamp = t0\<rparr>]\<rparr>"

text \<open>Run on \<open>m\<close>, the body leaves the entry of the name \<open>k\<close> as it found it.\<close>

definition leaves :: "body \<Rightarrow> MetricsContext \<Rightarrow> string \<Rightarrow> bool" where
  "leaves fn m k = (Metrics (snd (fn m)) k = Metrics m k)"

text \<open>
  Frames as the runtime reports them for the tests \<open>TestPanicSearch\<close> and
  \<open>TestRunInstrumentedPanic\<close>: the panic trampoline, deferred functions that recover and
  panic again, the places of the original panics, and the callers below them.
\<close>

definition ex_gopanic :: Frame where
  "ex_gopanic =
    \<lparr>File = ''/usr/local/go/src/runtime/panic.go'', Line = 679,
     Function = ''runtime.gopanic''\<rparr>"

definition ex_goexit :: Frame where
  "ex_goexit =
    \<lparr>File = ''/usr/local/go/src/runtime/asm_amd64.s'', Line = 1357,
     Function = ''runtime.goexit''\<rparr>"

definition ex_tRunner :: Frame where
  "ex_tRunner =
    \<lparr>File = ''/usr/local/go/src/testing/testing.go'', Line = 909,
     Function = ''testing.tRunner''\<rparr>"

definition ex_recover :: Frame where
  "ex_recover =
    \<lparr>File = ''/go/src/github.com/Cyberax/go-dd-service-base/visibility/log_helpers_test.go'',
     Line = 80,
     Function = ''github.com/Cyberax/go-dd-service-base/visibility.TestPanicSearch.func1''\<rparr>"

definition ex_repanic :: Frame where
  "ex_repanic =
    \<lparr>File = ''/go/src/github.com/Cyberax/go-dd-service-base/visibility/log_helpers_test.go'',
     Line = 90,
     Function = ''github.com/Cyberax/go-dd-service-base/visibility.TestPanicSearch.func2''\<rparr>"

definition ex_site :: Frame where
  "ex_site =
    \<lparr>File = ''/go/src/github.com/Cyberax/go-dd-service-base/visibility/log_helpers_test.go'',
     Line = 98,
     Function = ''github.com/Cyberax/go-dd-service-base/visibility.TestPanicSearch''\<rparr>"

definition ex_goroutine :: "Frame list" where
  "ex_goroutine =
    [\<lparr>File = ''/usr/local/go/src/runtime/extern.go'', Line = 211,
      Function = ''runtime.Callers''\<rparr>,
     \<lparr>File = ''/go/src/github.com/Cyberax/go-dd-service-base/visibility/log_helpers.go'',
      Line = 52,
      Function = ''github.com/Cyberax/go-dd-service-base/visibility.NewShortenedStackTrace''\<rparr>,
     \<lparr>File = ''/go/src/github.com/Cyberax/go-dd-service-base/visibility/runner.go'',
      Line = 42,
      Function = ''github.com/Cyberax/go-dd-service-base/visibility.RunInstrumented.func1''\<rparr>,
     ex_gopanic,
     \<lparr>File = ''/go/src/github.com/Cyberax/go-dd-service-base/visibility/runner_test.go'',
      Line = 51,
      Function =
        ''github.com/Cyberax/go-dd-service-base/visibility.TestRunInstrumentedPanic.func1.1''\<rparr>,
     \<lparr>File = ''/go/src/github.com/Cyberax/go-dd-service-base/visibility/runner.go'',
      Line = 68,
      Function = ''github.com/Cyberax/go-dd-service-base/visibility.RunInstrumented''\<rparr>,
     ex_tRunner,
     ex_goexit]"

text \<open>An environment for the examples: \<open>%v\<close> prints a string as it is.\<close>

definition ex_env :: Env where
  "ex_env =
    \<lparr>sprint_v = (\<lambda>v. case v of GoString s \<Rightarrow> s | _ \<Rightarrow> ''<nil>''),
     normalizeUnitName = (\<lambda>u. ''unit''),
     rangeOrder = (\<lambda>m. []),
     goroutine = ex_goroutine\<rparr>"

definition ex_scope :: Scope where
  "ex_scope = \<lparr>logger = Some ''root'', clientType = None\<rparr>"

section \<open>Normalization of units\<close>

text \<open>
  C5. \<open>Normalize\<close> converts every unit to the smallest unit of its family, with exact
  factors: seconds and milliseconds become microseconds (times \<open>10^6\<close> and times 1000);
  kilo-, mega-, giga- and terabytes become bytes, and likewise bits, bytes/second and
  bits/second (times 1024, \<open>1024^2\<close>, \<open>1024^3\<close>, \<open>1024^4\<close>); the smallest units
  themselves, percent, count, count/second and none pass through with value and unit
  unchanged; a unit that is none of the named ones keeps its value and becomes none.
  So 125 gigabits/second become \<open>125 * 1024^3\<close> bits/second, 2 kilobytes are 2048 bytes
  and 500 milliseconds are 500000 microseconds. The normalized unit is canonical:
  normalizing an entry that already carries it changes nothing.
\<close>

theorem Normalize_exact_factors:
  "Normalize \<lparr>Val = v, Unit = StandardUnitSeconds, Timestamp = t\<rparr>
     = (v * 1000000, StandardUnitMicroseconds)
   \<and> Normalize \<lparr>Val = v, Unit = StandardUnitMicroseconds, Timestamp = t\<rparr>
     = (v, StandardUnitMicroseconds)
   \<and> Normalize \<lparr>Val = v, Unit = StandardUnitMilliseconds, Timestamp = t\<rparr>
     = (v * 1000, StandardUnitMicroseconds)
   \<and> Normalize \<lparr>Val = v, Unit = StandardUnitBytes, Timestamp = t\<rparr>
     = (v, StandardUnitBytes)
   \<and> Normalize \<lparr>Val = v, Unit = StandardUnitKilobytes, Timestamp = t\<rparr>
     = (v * 1024, StandardUnitBytes)
   \<and> Normalize \<lparr>Val = v, Unit = StandardUnitMegabytes, Timestamp = t\<rparr>
     = (v * 1024 ^ 2, StandardUnitBytes)
   \<and> Normalize \<lparr>Val = v, Unit = StandardUnitGigabytes, Timestamp = t\<rparr>
     = (v * 1024 ^ 3, StandardUnitBytes)
   \<and> Normalize \<lparr>Val = v, Unit = StandardUnitTerabytes, Timestamp = t\<rparr>
     = (v * 1024 ^ 4, StandardUnitBytes)
   \<and> Normalize \<lparr>Val = v, Unit = StandardUnitBits, Timestamp = t\<rparr>
     = (v, StandardUnitBits)
   \<and> Normalize \<lparr>Val = v, Unit = StandardUnitKilobits, Timestamp = t\<rparr>
     = (v * 1024, StandardUnitBits)
   \<and> Normalize \<lparr>Val = v, Unit = StandardUnitMegabits, Timestamp = t\<rparr>
     = (v * 1024 ^ 2, StandardUnitBits)
   \<and> Normalize \<lparr>Val = v, Unit = StandardUnitGigabits, Timestamp = t\<rparr>
     = (v * 1024 ^ 3, StandardUnitBits)
   \<and> Normalize \<lparr>Val = v, Unit = StandardUnitTerabits, Timestamp = t\<rparr>
     = (v * 1024 ^ 4, StandardUnitBits)
   \<and> Normalize \<lparr>Val = v, Unit = StandardUnitPercent, Timestamp = t\<rparr>
     = (v, StandardUnitPercent)
   \<and> Normalize \<lparr>Val = v, Unit = StandardUnitCount, Timestamp = t\<rparr>
     = (v, StandardUnitCount)
   \<and> Normalize \<lparr>Val = v, Unit = StandardUnitBytesSecond, Timestamp = t\<rparr>
     = (v, StandardUnitBytesSecond)
   \<and> Normalize \<lparr>Val = v, Unit = StandardUnitKilobytesSecond, Timestamp = t\<rparr>
     = (v * 1024, StandardUnitBytesSecond)
   \<and> Normalize \<lparr>Val = v, Unit = StandardUnitMegabytesSecond, Timestamp = t\<rparr>
     = (v * 1024 ^ 2, StandardUnitBytesSecond)
   \<and> Normalize \<lparr>Val = v, Unit = StandardUnitGigabytesSecond, Timestamp = t\<rparr>
     = (v * 1024 ^ 3, StandardUnitBytesSecond)
   \<and> Normalize \<lparr>Val = v, Unit = StandardUnitTerabytesSecond, Timestamp = t\<rparr>
     = (v * 1024 ^ 4, StandardUnitBytesSecond)
   \<and> Normalize \<lparr>Val = v, Unit = StandardUnitBitsSecond, Timestamp = t\<rparr>
     = (v, StandardUnitBitsSecond)
   \<and> Normalize \<lparr>Val = v, Unit = StandardUnitKilobitsSecond, Timestamp = t\<rparr>
     = (v * 1024, StandardUnitBitsSecond)
   \<and> Normalize \<lparr>Val = v, Unit = StandardUnitMegabitsSecond, Timestamp = t\<rparr>
     = (v * 1024 ^ 2, StandardUnitBitsSecond)
   \<and> Normalize \<lparr>Val = v, Unit = StandardUnitGigabitsSecond, Timestamp = t\<rparr>
     = (v * 1024 ^ 3, StandardUnitBitsSecond)
   \<and> Normalize \<lparr>Val = v, Unit = StandardUnitTerabitsSecond, Timestamp = t\<rparr>
     = (v * 1024 ^ 4, StandardUnitBitsSecond)
   \<and> Normalize \<lparr>Val = v, Unit = StandardUnitCountSecond, Timestamp = t\<rparr>
     = (v, StandardUnitCountSecond)
   \<and> Normalize \<lparr>Val = v, Unit = StandardUnitNone, Timestamp = t\<rparr>
     = (v, StandardUnitNone)
   \<and> Normalize \<lparr>Val = v, Unit = StandardUnitOther x, Timestamp = t\<rparr> = (v, StandardUnitNone)
   \<and> Normalize \<lparr>Val = 125, Unit = StandardUnitGigabitsSecond, Timestamp = t\<rparr>
     = (125 * 1024 ^ 3, StandardUnitBitsSecond)
   \<and> Normalize \<lparr>Val = 2, Unit = StandardUnitKilobytes, Timestamp = t\<rparr>
     = (2048, StandardUnitBytes)
   \<and> Normalize \<lparr>Val = 500, Unit = StandardUnitMilliseconds, Timestamp = t\<rparr>
     = (500000, StandardUnitMicroseconds)
   \<and> Normalize \<lparr>Val = fst (Normalize e), Unit = snd (Normalize e), Timestamp = t\<rparr> = Normalize e"
  by (cases "Unit e") (simp_all add: power2_eq_square power3_eq_cube power4_eq_xxxx)

section \<open>Accumulation of a metric\<close>

text \<open>
  C4. The first \<open>AddMetric\<close> for a name (the name is absent) stores the given value and
  establishes the unit; an \<open>AddMetric\<close> for a name that is present adds its value to the
  stored one when the unit is the established one, and panics when the unit differs.
\<close>

theorem AddMetric_first_then_accumulate:
  "(Metrics m n = None \<longrightarrow>
      AddMetric now n v u m
        = Inr (m\<lparr>Metrics := (Metrics m)(n \<mapsto> \<lparr>Val = v, Unit = u, Timestamp = now\<rparr>)\<rparr>))
   \<and> (Metrics m n = Some e \<and> Unit e = u \<longrightarrow>
      AddMetric now n v u m = Inr (m\<lparr>Metrics := (Metrics m)(n \<mapsto> e\<lparr>Val := Val e + v\<rparr>)\<rparr>))
   \<and> (Metrics m n = Some e \<and> Unit e \<noteq> u \<longrightarrow> (\<exists>p. AddMetric now n v u m = Inl p))"
  by (simp add: AddMetric_def PanicIfF_def)

text \<open>
  The three cases on a fresh accumulator: a first addition of 1 count under \<open>x\<close>, a
  second addition of 2 counts, and an addition in bytes, which panics.
\<close>

theorem AddMetric_first_then_accumulate_witness:
  "(let m0 = MakeMetricContext ''op'';
        e1 = \<lparr>Val = 1, Unit = StandardUnitCount, Timestamp = 5\<rparr>;
        m1 = m0\<lparr>Metrics := (Metrics m0)(''x'' \<mapsto> e1)\<rparr>
    in Metrics m0 ''x'' = None
       \<and> AddMetric 5 ''x'' 1 StandardUnitCount m0 = Inr m1
       \<and> Metrics m1 ''x'' = Some e1 \<and> Unit e1 = StandardUnitCount
       \<and> AddMetric 6 ''x'' 2 StandardUnitCount m1
           = Inr (m1\<lparr>Metrics := (Metrics m1)(''x'' \<mapsto> e1\<lparr>Val := 3\<rparr>)\<rparr>)
       \<and> Unit e1 \<noteq> StandardUnitBytes
       \<and> (\<exists>p. AddMetric 6 ''x'' 1 StandardUnitBytes m1 = Inl p))"
  using AddMetric_first_then_accumulate
          [where m = "MakeMetricContext ''op''" and n = "''x''" and now = 5 and v = 1
             and u = StandardUnitCount]
        AddMetric_first_then_accumulate
          [where m = "(MakeMetricContext ''op'')\<lparr>Metrics := (Metrics (MakeMetricContext ''op''))(''x'' \<mapsto> \<lparr>Val = 1, Unit = StandardUnitCount, Timestamp = 5\<rparr>)\<rparr>"
             and n = "''x''" and e = "\<lparr>Val = 1, Unit = StandardUnitCount, Timestamp = 5\<rparr>"
             and u = StandardUnitCount and now = 6 and v = 2]
        AddMetric_first_then_accumulate
          [where m = "(MakeMetricContext ''op'')\<lparr>Metrics := (Metrics (MakeMetricContext ''op''))(''x'' \<mapsto> \<lparr>Val = 1, Unit = StandardUnitCount, Timestamp = 5\<rparr>)\<rparr>"
             and n = "''x''" and e = "\<lparr>Val = 1, Unit = StandardUnitCount, Timestamp = 5\<rparr>"
             and u = StandardUnitBytes and now = 6 and v = 1]
  by (simp add: MakeMetricContext_def Let_def)

section \<open>The message of a panic\<close>

text \<open>
  C9, as amended. The normalization of a panic payload follows the case order of the
  specification on every payload: the payload's string conversion if it has one,
  otherwise its error message if it is an error, the generic message
  \<open>recovered from panic\<close> for the nil payload, and the reflective string conversion for
  anything else. (The source tests for nil first; a nil interface value has neither
  method, so the two orders describe the same function.) The conversion fails in one
  way only: when the method it calls on the payload, \<open>String()\<close> or else \<open>Error()\<close>,
  panics, that panic leaves \<open>convertPanicMsg\<close>; on every other payload it returns a
  string.
\<close>

theorem convertPanicMsg_case_order:
  "convertPanicMsg m = convertPanicMsg_spec m
   \<and> convertPanicMsg (GoObject t (Some (Returns s)) e) = Inr s
   \<and> convertPanicMsg (GoObject t None (Some (Returns x))) = Inr x
   \<and> convertPanicMsg GoNil = Inr ''recovered from panic''
   \<and> convertPanicMsg (GoObject t None None) = Inr (reflect_String (GoObject t None None))
   \<and> convertPanicMsg (GoString s) = Inr (reflect_String (GoString s))
   \<and> convertPanicMsg (GoInt i) = Inr (reflect_String (GoInt i))
   \<and> convertPanicMsg (GoObject t (Some (Panics q)) e) = Inl q
   \<and> convertPanicMsg (GoObject t None (Some (Panics q))) = Inl q
   \<and> (convertPanicMsg m = Inl q)
       = (asStringer m = Some (Panics q) \<or> asStringer m = None \<and> asError m = Some (Panics q))
   \<and> (\<exists>r. convertPanicMsg m = Inr r)
       = (\<not> (\<exists>q. asStringer m = Some (Panics q)
                 \<or> asStringer m = None \<and> asError m = Some (Panics q)))"
proof -
  have order: "convertPanicMsg m = convertPanicMsg_spec m"
    by (cases m) (simp_all add: convertPanicMsg_def convertPanicMsg_spec_def split: option.splits)
  have fails: "(convertPanicMsg m = Inl q)
       = (asStringer m = Some (Panics q) \<or> asStringer m = None \<and> asError m = Some (Panics q))"
    for q
  proof (cases m)
    case (GoObject t s e)
    show ?thesis
    proof (cases s)
      case None
      then show ?thesis
        using GoObject by (cases e; cases "the e") (auto simp: convertPanicMsg_def)
    next
      case (Some c)
      then show ?thesis
        using GoObject by (cases c) (auto simp: convertPanicMsg_def)
    qed
  qed (simp_all add: convertPanicMsg_def)
  have returns: "(\<exists>r. convertPanicMsg m = Inr r)
       = (\<not> (\<exists>q. asStringer m = Some (Panics q)
                 \<or> asStringer m = None \<and> asError m = Some (Panics q)))"
    using fails by (cases "convertPanicMsg m") auto
  show ?thesis
    using order fails returns by (simp add: convertPanicMsg_def)
qed

text \<open>
  The claim as stated fails on a payload whose string conversion panics: a nil pointer
  of a type whose \<open>String()\<close> dereferences its receiver, such as \<open>(*url.URL)(nil)\<close>. The
  interface value is not nil, the type is a \<open>fmt.Stringer\<close>, and the call of \<open>String()\<close>
  panics; no string is returned, and the constructor of the stack capture fails with it.
\<close>

theorem convertPanicMsg_method_panics:
  "convertPanicMsg
      (GoObject ''*url.URL''
         (Some (Panics (Errorf
            ''runtime error: invalid memory address or nil pointer dereference'')))
         None)
     = Inl (Errorf ''runtime error: invalid memory address or nil pointer dereference'')
   \<and> \<not> (\<exists>r. convertPanicMsg
              (GoObject ''*url.URL''
                 (Some (Panics (Errorf
                    ''runtime error: invalid memory address or nil pointer dereference'')))
                 None) = Inr r)
   \<and> NewShortenedStackTrace [] 0 False
        (GoObject ''*url.URL''
           (Some (Panics (Errorf
              ''runtime error: invalid memory address or nil pointer dereference'')))
           None)
       = Inl (Errorf ''runtime error: invalid memory address or nil pointer dereference'')"
  by (simp add: convertPanicMsg_def NewShortenedStackTrace_def)

section \<open>The multi-value scope\<close>

lemma populate_fold_nil:
  "ran mp \<subseteq> {GoNil} \<Longrightarrow>
   ran (fold (\<lambda>i mp. mp(l ! (i * 2) \<mapsto> mapRead mp (l ! (i * 2 + 1)))) xs mp) \<subseteq> {GoNil}"
proof (induction xs arbitrary: mp)
  case Nil
  then show ?case by simp
next
  case (Cons i xs)
  have "mapRead mp k = GoNil" for k
    using Cons.prems by (auto simp: mapRead_def ran_def split: option.splits)
  then have "ran (mp(l ! (i * 2) \<mapsto> mapRead mp (l ! (i * 2 + 1)))) \<subseteq> {GoNil}"
    using Cons.prems by (auto simp: ran_def)
  from Cons.IH [OF this] show ?case by simp
qed

text \<open>
  C10. \<open>NewMultiValueContext\<close> does not store the value paired with a key: it stores what
  the map under construction holds at that value, so every stored value is nil. Built
  from \<open>a, 1, b, 2\<close>, the scope answers nil for \<open>a\<close> and for \<open>b\<close>; only a key that was
  not supplied is looked up in the parent.
\<close>

theorem NewMultiValueContext_stores_nil:
  "ran (populate dataList) \<subseteq> {GoNil}
   \<and> (case NewMultiValueContext (\<lambda>k. GoString ''from parent'')
              [GoString ''a'', GoInt 1, GoString ''b'', GoInt 2] of
         Inl p \<Rightarrow> False
       | Inr m \<Rightarrow> Value m (GoString ''a'') = GoNil \<and> Value m (GoString ''b'') = GoNil
                  \<and> Value m (GoString ''c'') = GoString ''from parent'')"
proof
  show "ran (populate dataList) \<subseteq> {GoNil}"
    unfolding populate_def by (rule populate_fold_nil) simp
  show "case NewMultiValueContext (\<lambda>k. GoString ''from parent'')
              [GoString ''a'', GoInt 1, GoString ''b'', GoInt 2] of
         Inl p \<Rightarrow> False
       | Inr m \<Rightarrow> Value m (GoString ''a'') = GoNil \<and> Value m (GoString ''b'') = GoNil
                  \<and> Value m (GoString ''c'') = GoString ''from parent''"
    by (simp add: NewMultiValueContext_def PanicIfF_def populate_def Value_def mapRead_def
          upt_rec [of 0] upt_rec [of 1])
qed

section \<open>Outcome counts of \<open>InstrumentWithMetrics\<close>\<close>

text \<open>
  On a fresh accumulator the three pre-setting additions succeed, and the body runs on
  \<open>asFound\<close>; what remains is the classification and the deferred time measurement.
\<close>

lemma presets:
  "InstrumentWithMetrics t0 t1 fn (MakeMetricContext opn)
     = deferred (Done t1 (Benchmark t0 ''Time'')) (classify t1 fn (asFound t0 opn))"
  by (simp add: InstrumentWithMetrics_def seq_def AddCount_def AddMetric_def
        MakeMetricContext_def asFound_def)

lemma deferred_Done_fst:
  "(\<forall>e. Metrics (snd r) ''Time'' = Some e \<longrightarrow> Unit e = StandardUnitSeconds) \<Longrightarrow>
   fst (deferred (Done t1 (Benchmark t0 ''Time'')) r) = fst r"
  by (auto simp: deferred_def Done_def Benchmark_def AddDuration_def AddMetric_def PanicIfF_def
        split: option.splits)

lemma deferred_Done_other:
  "k \<noteq> ''Time'' \<Longrightarrow>
   Metrics (snd (deferred (Done t1 (Benchmark t0 ''Time'')) r)) k = Metrics (snd r) k"
  by (auto simp: deferred_def Done_def Benchmark_def AddDuration_def AddMetric_def PanicIfF_def
        split: option.splits)

lemma classify_result:
  assumes "fn m = (r, m')"
    and "Metrics m' ''Success'' = Some \<lparr>Val = 0, Unit = StandardUnitCount, Timestamp = t\<rparr>"
    and "Metrics m' ''Error'' = Some \<lparr>Val = 0, Unit = StandardUnitCount, Timestamp = t\<rparr>"
    and "Metrics m' ''Fault'' = Some \<lparr>Val = 1, Unit = StandardUnitCount, Timestamp = t\<rparr>"
  shows "fst (classify t1 fn m) = r"
    and "Metrics (snd (classify t1 fn m)) ''Time'' = Metrics m' ''Time''"
    and "(GetMetric (snd (classify t1 fn m)) ''Success'',
          GetMetric (snd (classify t1 fn m)) ''Error'',
          GetMetric (snd (classify t1 fn m)) ''Fault'')
         = (case r of
              Returned e \<Rightarrow>
                if e = GoNil
                then ((1, StandardUnitCount), (0, StandardUnitCount), (0, StandardUnitCount))
                else ((0, StandardUnitCount), (1, StandardUnitCount), (0, StandardUnitCount))
            | Panicked q \<Rightarrow>
                ((0, StandardUnitCount), (0, StandardUnitCount), (1, StandardUnitCount)))"
  using assms
  by (cases r; simp add: classify_def seq_def AddCount_def AddMetric_def PanicIfF_def
        GetMetric_def)+

text \<open>
  C1, as amended. Let the wrapper run on a fresh accumulator, and let the body leave the
  entries \<open>Success\<close>, \<open>Error\<close> and \<open>Fault\<close> as it finds them. Then the counts afterwards
  are exactly Success 1, Error 0, Fault 0 when the body returns nil; Success 0, Error 1,
  Fault 0 when it returns an error; and Success 0, Error 0, Fault 1 when it panics. If
  the body also leaves the entry \<open>Time\<close> alone, the wrapper ends as the body did: it
  returns the body's error unchanged, or the body's panic goes on to the caller.
\<close>

theorem InstrumentWithMetrics_classifies:
  assumes "leaves fn (asFound t0 opn) ''Success''"
    and "leaves fn (asFound t0 opn) ''Error''"
    and "leaves fn (asFound t0 opn) ''Fault''"
  shows "(case InstrumentWithMetrics t0 t1 fn (MakeMetricContext opn) of
           (r', m') \<Rightarrow>
             (GetMetric m' ''Success'', GetMetric m' ''Error'', GetMetric m' ''Fault'')
               = (case fst (fn (asFound t0 opn)) of
                    Returned e \<Rightarrow>
                      if e = GoNil
                      then ((1, StandardUnitCount), (0, StandardUnitCount), (0, StandardUnitCount))
                      else ((0, StandardUnitCount), (1, StandardUnitCount), (0, StandardUnitCount))
                  | Panicked q \<Rightarrow>
                      ((0, StandardUnitCount), (0, StandardUnitCount), (1, StandardUnitCount)))
             \<and> (leaves fn (asFound t0 opn) ''Time'' \<longrightarrow> r' = fst (fn (asFound t0 opn))))"
proof -
  obtain r m4 where fn: "fn (asFound t0 opn) = (r, m4)"
    by (cases "fn (asFound t0 opn)")
  have s: "Metrics m4 ''Success'' = Some \<lparr>Val = 0, Unit = StandardUnitCount, Timestamp = t0\<rparr>"
    and e: "Metrics m4 ''Error'' = Some \<lparr>Val = 0, Unit = StandardUnitCount, Timestamp = t0\<rparr>"
    and f: "Metrics m4 ''Fault'' = Some \<lparr>Val = 1, Unit = StandardUnitCount, Timestamp = t0\<rparr>"
    using assms fn by (simp_all add: leaves_def asFound_def)
  note c = classify_result [where fn = fn and m = "asFound t0 opn" and ?t1.0 = t1, OF fn s e f]
  let ?c = "classify t1 fn (asFound t0 opn)"
  let ?d = "deferred (Done t1 (Benchmark t0 ''Time'')) ?c"
  have g: "GetMetric (snd ?d) k = GetMetric (snd ?c) k" if "k \<noteq> ''Time''" for k
    using deferred_Done_other [OF that, of t1 t0 ?c] by (simp add: GetMetric_def)
  have counts: "(GetMetric (snd ?d) ''Success'', GetMetric (snd ?d) ''Error'',
                 GetMetric (snd ?d) ''Fault'')
      = (case r of
           Returned e \<Rightarrow>
             if e = GoNil
             then ((1, StandardUnitCount), (0, StandardUnitCount), (0, StandardUnitCount))
             else ((0, StandardUnitCount), (1, StandardUnitCount), (0, StandardUnitCount))
         | Panicked q \<Rightarrow>
             ((0, StandardUnitCount), (0, StandardUnitCount), (1, StandardUnitCount)))"
    using c(3) by (simp add: g)
  have out: "fst ?d = r" if "leaves fn (asFound t0 opn) ''Time''"
  proof -
    have "Metrics m4 ''Time'' = None"
      using that fn by (simp add: leaves_def asFound_def)
    then have "Metrics (snd ?c) ''Time'' = None"
      using c(2) by simp
    then show ?thesis
      using deferred_Done_fst [of ?c t1 t0] c(1) by simp
  qed
  show ?thesis
    unfolding presets using counts out fn by (simp add: case_prod_beta)
qed

text \<open>
  The three outcomes of the repository's test: a body that returns nil, one that returns
  an error, one that panics; none of them touches the accumulator.
\<close>

theorem InstrumentWithMetrics_classifies_witness:
  "list_all (\<lambda>k. leaves (\<lambda>m. (Returned GoNil, m)) (asFound 0 ''test1'') k
               \<and> leaves (\<lambda>m. (Returned (Errorf ''bad error''), m)) (asFound 0 ''test1'') k
               \<and> leaves (\<lambda>m. (Panicked (GoString ''Hello''), m)) (asFound 0 ''test1'') k)
     [''Success'', ''Error'', ''Fault'', ''Time'']
   \<and> (case InstrumentWithMetrics 0 1 (\<lambda>m. (Returned GoNil, m)) (MakeMetricContext ''test1'') of
        (r', m') \<Rightarrow> r' = Returned GoNil
          \<and> (GetMetricVal m' ''Success'', GetMetricVal m' ''Error'', GetMetricVal m' ''Fault'')
              = (1, 0, 0))
   \<and> (case InstrumentWithMetrics 0 1 (\<lambda>m. (Returned (Errorf ''bad error''), m))
              (MakeMetricContext ''test1'') of
        (r', m') \<Rightarrow> r' = Returned (Errorf ''bad error'')
          \<and> (GetMetricVal m' ''Success'', GetMetricVal m' ''Error'', GetMetricVal m' ''Fault'')
              = (0, 1, 0))
   \<and> (case InstrumentWithMetrics 0 1 (\<lambda>m. (Panicked (GoString ''Hello''), m))
              (MakeMetricContext ''test1'') of
        (r', m') \<Rightarrow> r' = Panicked (GoString ''Hello'')
          \<and> (GetMetricVal m' ''Success'', GetMetricVal m' ''Error'', GetMetricVal m' ''Fault'')
              = (0, 0, 1))"
proof -
  have l: "leaves (\<lambda>m. (r, m)) m0 k" for r m0 k
    by (simp add: leaves_def)
  show ?thesis
    using InstrumentWithMetrics_classifies [OF l l l, of "Returned GoNil" 0 "''test1''" 1]
      InstrumentWithMetrics_classifies
        [OF l l l, of "Returned (Errorf ''bad error'')" 0 "''test1''" 1]
      InstrumentWithMetrics_classifies
        [OF l l l, of "Panicked (GoString ''Hello'')" 0 "''test1''" 1]
    by (simp add: l GetMetricVal_def Errorf_def split: prod.splits)
qed

text \<open>
  The claim as stated fails for a body that records an outcome of its own in the same
  scope: with a nested \<open>InstrumentWithMetrics\<close> as the body, the body returns nil and the
  accumulated count of \<open>Success\<close> is 2.
\<close>

theorem InstrumentWithMetrics_nested_counterexample:
  "fst (InstrumentWithMetrics 0 1 (InstrumentWithMetrics 0 1 (\<lambda>m. (Returned GoNil, m)))
          (MakeMetricContext ''test1'')) = Returned GoNil
   \<and> fst (InstrumentWithMetrics 0 1 (\<lambda>m. (Returned GoNil, m)) (asFound 0 ''test1''))
       = Returned GoNil
   \<and> GetMetric (snd (InstrumentWithMetrics 0 1
                       (InstrumentWithMetrics 0 1 (\<lambda>m. (Returned GoNil, m)))
                       (MakeMetricContext ''test1''))) ''Success'' = (2, StandardUnitCount)"
  by (simp add: InstrumentWithMetrics_def seq_def deferred_def classify_def Done_def
        Benchmark_def AddDuration_def AddCount_def AddMetric_def PanicIfF_def
        MakeMetricContext_def GetMetric_def asFound_def)

section \<open>Panics under \<open>RunInstrumented\<close>\<close>

text \<open>
  C2, as amended. On a scope that carries a logger, when the body panics with a payload
  \<open>p\<close> that is not nil, \<open>RunInstrumented\<close> panics with the same \<open>p\<close>, and the span it
  leaves carries the rendered stack (captured with \<open>skipToFirstPanic\<close> set and the
  formatted payload as its message) under \<open>error.stack\<close>, the payload as \<open>%v\<close> formats it
  under \<open>panic\<close>, and is finished with the error \<open>gopanic: \<close> followed by the payload.
\<close>

theorem RunInstrumented_reraises:
  assumes "logger ctx = Some lg"
    and "fn (MakeMetricContext n) = (Panicked p, m')"
    and "p \<noteq> GoNil"
  shows "ended (RunInstrumented env ctx n fn) = Panicked p
    \<and> (\<exists>sp. traced (RunInstrumented env ctx n fn) = Some sp
          \<and> tags sp ''error.stack''
              = Some (TagString (StringStack
                  \<lparr>skipToFirstPanic = True, stack = take 40 (drop 3 (goroutine env)),
                   msg = sprint_v env p\<rparr>))
          \<and> tags sp ''panic'' = Some (TagString (sprint_v env p))
          \<and> finished sp = FinishedWithError (Errorf (''gopanic: '' @ sprint_v env p)))"
  using assms
  by (simp add: RunInstrumented_def handler_def Let_def SetTag_def FinishWithError_def
        NewShortenedStackTrace_def convertPanicMsg_def split: prod.splits)

text \<open>
  The repository's test: the body panics with the string \<open>bad panic\<close>; the first line of
  the stack on the span is the place of the panic.
\<close>

theorem RunInstrumented_reraises_witness:
  "logger ex_scope = Some ''root''
   \<and> (\<lambda>m. (Panicked (GoString ''bad panic''), m)) (MakeMetricContext ''test1'')
       = (Panicked (GoString ''bad panic''), MakeMetricContext ''test1'')
   \<and> GoString ''bad panic'' \<noteq> GoNil
   \<and> ended (RunInstrumented ex_env ex_scope ''test1''
              (\<lambda>m. (Panicked (GoString ''bad panic''), m)))
       = Panicked (GoString ''bad panic'')
   \<and> (\<exists>sp. traced (RunInstrumented ex_env ex_scope ''test1''
                     (\<lambda>m. (Panicked (GoString ''bad panic''), m))) = Some sp
          \<and> tags sp ''error.stack''
              = Some (TagString
                  (''github.com/Cyberax/go-dd-service-base/visibility/runner_test.go:51 TestRunInstrumentedPanic.func1.1''
                   @ [CHR 0x0A]
                   @ ''github.com/Cyberax/go-dd-service-base/visibility/runner.go:68 RunInstrumented''
                   @ [CHR 0x0A] @ ''testing/testing.go:909 tRunner'' @ [CHR 0x0A]))
          \<and> tags sp ''panic'' = Some (TagString ''bad panic'')
          \<and> finished sp = FinishedWithError (Errorf ''gopanic: bad panic''))"
proof -
  have lg: "logger ex_scope = Some ''root''"
    by (simp add: ex_scope_def)
  have st: "StringStack \<lparr>skipToFirstPanic = True, stack = take 40 (drop 3 (goroutine ex_env)),
                         msg = ''bad panic''\<rparr>
      = ''github.com/Cyberax/go-dd-service-base/visibility/runner_test.go:51 TestRunInstrumentedPanic.func1.1''
        @ [CHR 0x0A]
        @ ''github.com/Cyberax/go-dd-service-base/visibility/runner.go:68 RunInstrumented''
        @ [CHR 0x0A] @ ''testing/testing.go:909 tRunner'' @ [CHR 0x0A]"
    by code_simp
  have sp: "sprint_v ex_env (GoString ''bad panic'') = ''bad panic''"
    by (simp add: ex_env_def)
  show ?thesis
    using RunInstrumented_reraises
      [where ctx = ex_scope and lg = "''root''" and n = "''test1''"
         and fn = "\<lambda>m. (Panicked (GoString ''bad panic''), m)" and p = "GoString ''bad panic''"
         and m' = "MakeMetricContext ''test1''" and env = ex_env, OF lg]
    by (simp add: lg st sp)
qed

text \<open>
  The claim as stated fails for the nil payload: \<open>panic(nil)\<close> makes \<open>recover()\<close> return
  nil, the handler takes the branch of a normal return, the span is finished without
  error, and \<open>RunInstrumented\<close> returns nil to its caller.
\<close>

theorem RunInstrumented_swallows_nil_panic:
  "ended (RunInstrumented ex_env ex_scope ''test1'' (\<lambda>m. (Panicked GoNil, m)))
     = Returned GoNil
   \<and> map_option finished
        (traced (RunInstrumented ex_env ex_scope ''test1'' (\<lambda>m. (Panicked GoNil, m))))
       = Some Finished"
  by (simp add: RunInstrumented_def handler_def Let_def CopyToSpan_def CopyToStatsd_def
        Finish_def ex_env_def ex_scope_def)

section \<open>Registration of process names\<close>

text \<open>
  C6. While a name is registered, \<open>TryRun\<close> under that name returns false and \<open>Run\<close>
  panics, and both leave the registry exactly as it was. Once the registered process
  has ended (its deferred calls have run), the name is absent, and \<open>TryRun\<close> and \<open>Run\<close>
  under it succeed: the new context is registered and its task is started.
\<close>

theorem duplicate_name_rejected:
  assumes "processes p (Name pc0) = Some pc0" and "Name pc = Name pc0"
  shows "TryRun pc proc p = (False, p)
    \<and> Run pc proc p = (Some (GoString (''There's already a process named: '' @ Name pc)), p)
    \<and> (case exits pc0 p of
         (r, p') \<Rightarrow>
           \<not> HasProcess p' (Name pc)
           \<and> TryRun pc proc p'
               = (True, p'\<lparr>processes := (processes p')(Name pc \<mapsto> pc),
                             numRunning := numRunning p,
                             runningGroups := runningGroups p,
                             goroutines := goroutines p @ [OneShot pc proc]\<rparr>)
           \<and> fst (Run pc proc p') = None
           \<and> snd (Run pc proc p') = snd (TryRun pc proc p'))"
  using assms
  by (simp add: TryRun_def Run_def prepareRun_def exits_def markDone_def HasProcess_def Let_def
        split: prod.splits)

text \<open>The repository's test of duplicates: \<open>proc1\<close> is started, then started again.\<close>

theorem duplicate_name_rejected_witness:
  "(let pc0 = CreateProcessContext 0 ''proc1''; pc = CreateProcessContext 1 ''proc1'';
        p = snd (TryRun pc0 () NewProcessRegistry)
    in processes p (Name pc0) = Some pc0 \<and> Name pc = Name pc0
       \<and> TryRun pc () p = (False, p)
       \<and> fst (Run pc () p) = Some (GoString ''There's already a process named: proc1'')
       \<and> snd (Run pc () p) = p
       \<and> fst (exits pc0 p) = None
       \<and> fst (TryRun pc () (snd (exits pc0 p)))
       \<and> processes (snd (TryRun pc () (snd (exits pc0 p)))) ''proc1'' = Some pc)"
  using duplicate_name_rejected
    [where pc0 = "CreateProcessContext 0 ''proc1''" and pc = "CreateProcessContext 1 ''proc1''"
       and p = "snd (TryRun (CreateProcessContext 0 ''proc1'') () NewProcessRegistry)"
       and proc = "()"]
  by (simp add: TryRun_def Run_def prepareRun_def exits_def markDone_def HasProcess_def Let_def
        CreateProcessContext_def NewProcessRegistry_def)

text \<open>
  C3. \<open>RunPeriodicProcess\<close> discards the result of \<open>prepareRun\<close>. With \<open>proc1\<close> registered
  and running, a periodic process under the same name does not fail: a second task is
  started. When that task ends it removes the entry of the first process, which is still
  running, and brings both counters to zero; when the first process ends, the wait
  group's counter falls below zero, which panics, and \<open>numRunning\<close> wraps around.
\<close>

theorem RunPeriodicProcess_ignores_collision:
  "(let pc1 = CreateProcessContext 0 ''proc1''; pc2 = CreateProcessContext 1 ''proc1'';
        p1 = snd (TryRun pc1 () NewProcessRegistry);
        p2 = RunPeriodicProcess 10 pc2 () p1;
        p3 = snd (exits pc2 p2);
        p4 = snd (exits pc1 p3)
    in HasProcess p1 ''proc1''
       \<and> goroutines p2 = [OneShot pc1 (), Periodic pc2 10 ()]
       \<and> processes p2 = processes p1 \<and> numRunning p2 = 1 \<and> runningGroups p2 = 1
       \<and> fst (exits pc2 p2) = None
       \<and> \<not> HasProcess p3 ''proc1'' \<and> numRunning p3 = 0 \<and> runningGroups p3 = 0
       \<and> fst (exits pc1 p3) = Some (GoString ''sync: negative WaitGroup counter'')
       \<and> numRunning p4 = 18446744073709551615)"
  by (simp add: TryRun_def RunPeriodicProcess_def prepareRun_def exits_def markDone_def
        HasProcess_def Let_def CreateProcessContext_def NewProcessRegistry_def)

section \<open>Rendering of frames\<close>

lemma strings_LastIndex_absent: "sep \<notin> set b \<Longrightarrow> strings_LastIndex b sep = - 1"
  by (induction b) (auto simp: Let_def)

lemma strings_LastIndex_last:
  "sep \<notin> set b \<Longrightarrow> strings_LastIndex (a @ sep # b) sep = int (length a)"
  by (induction a) (auto simp: Let_def strings_LastIndex_absent)

text \<open>One iteration of the loop of \<open>parseFrame\<close> moves the cut from the end of a path component to its beginning.\<close>

lemma stripLoop_step:
  assumes "CHR ''/'' \<notin> set b" and "p = a @ CHR ''/'' # b @ c"
    and "i = int (length a) + 1 + int (length b)"
  shows "stripLoop (Suc g) p i = stripLoop g p (int (length a))"
proof -
  have "nat i = length (a @ CHR ''/'' # b)"
    using assms(3) by (simp add: nat_add_distrib)
  moreover have "p = (a @ CHR ''/'' # b) @ c"
    using assms(2) by simp
  ultimately have "take (nat i) p = a @ CHR ''/'' # b"
    by (metis append_eq_conv_conj)
  then have "strings_LastIndex (take (nat i) p) CHR ''/'' = int (length a)"
    using assms(1) by (simp add: strings_LastIndex_last)
  then show ?thesis
    by (simp add: Let_def)
qed

lemma strings_Index_first:
  "sep \<notin> set a \<Longrightarrow> strings_Index (a @ sep # b) sep = int (length a)"
  by (induction a) (auto simp: Let_def)

lemma strings_Index_absent: "sep \<notin> set b \<Longrightarrow> strings_Index b sep = - 1"
  by (induction b) (auto simp: Let_def)


lemma stripLoop_components:
  "\<forall>c \<in> set comps. CHR ''/'' \<notin> set c \<Longrightarrow>
   stripLoop (length comps) (r @ concat (map ((#) CHR ''/'') comps) @ rest)
       (int (length (r @ concat (map ((#) CHR ''/'') comps))))
     = int (length r)"
proof (induction comps arbitrary: rest rule: rev_induct)
  case Nil
  then show ?case by simp
next
  case (snoc c comps)
  let ?j = "concat (map ((#) CHR ''/'') comps)"
  let ?p = "r @ concat (map ((#) CHR ''/'') (comps @ [c])) @ rest"
  have "stripLoop (Suc (length comps)) ?p
          (int (length (r @ concat (map ((#) CHR ''/'') (comps @ [c])))))
        = stripLoop (length comps) ?p (int (length (r @ ?j)))"
    by (rule stripLoop_step [where b = c and c = rest]) (use snoc.prems in simp_all)
  also have "\<dots> = int (length r)"
    using snoc.IH [of "CHR ''/'' # c @ rest"] snoc.prems by simp
  finally show ?case by simp
qed


text \<open>The rule of \<open>parseFrame\<close> for every frame of the expected shape.\<close>

lemma parseFrame_general:
  "(File frame = buildRoot @ concat (map ((#) CHR ''/'') comps)
      \<and> length comps = strings_Count (Function frame) CHR ''/'' + 2
      \<and> (\<forall>c \<in> set comps. CHR ''/'' \<notin> set c)
     \<longrightarrow> fst (parseFrame frame) = tl (concat (map ((#) CHR ''/'') comps)))
   \<and> (Function frame = dir @ pkg @ CHR ''.'' # rest
      \<and> (dir = [] \<or> last dir = CHR ''/'')
      \<and> CHR ''/'' \<notin> set pkg \<and> CHR ''/'' \<notin> set rest \<and> CHR ''.'' \<notin> set pkg
     \<longrightarrow> snd (snd (parseFrame frame)) = rest)
   \<and> fst (snd (parseFrame frame)) = Line frame"
proof (intro conjI impI)
  assume a: "File frame = buildRoot @ concat (map ((#) CHR ''/'') comps)
      \<and> length comps = strings_Count (Function frame) CHR ''/'' + 2
      \<and> (\<forall>c \<in> set comps. CHR ''/'' \<notin> set c)"
  let ?j = "concat (map ((#) CHR ''/'') comps)"
  have cut: "stripLoop (strings_Count (Function frame) CHR ''/'' + 2) (File frame)
               (int (length (File frame))) = int (length buildRoot)"
    using stripLoop_components [of comps buildRoot "[]"] a by simp
  have "fst (parseFrame frame)
          = drop (nat (stripLoop (strings_Count (Function frame) CHR ''/'' + 2) (File frame)
                         (int (length (File frame))) + 1)) (File frame)"
    by (simp only: parseFrame_def Let_def fst_conv)
  also have "\<dots> = drop (nat (int (length buildRoot) + 1)) (File frame)"
    by (simp only: cut)
  also have "\<dots> = tl ?j"
    using a by (simp add: nat_add_distrib drop_Suc)
  finally show "fst (parseFrame frame) = tl ?j" .
next
  assume b: "Function frame = dir @ pkg @ CHR ''.'' # rest
      \<and> (dir = [] \<or> last dir = CHR ''/'')
      \<and> CHR ''/'' \<notin> set pkg \<and> CHR ''/'' \<notin> set rest \<and> CHR ''.'' \<notin> set pkg"
  have l1: "drop (nat (strings_LastIndex (Function frame) CHR ''/'' + 1)) (Function frame)
              = pkg @ CHR ''.'' # rest"
  proof (cases "dir = []")
    case True
    then have "strings_LastIndex (Function frame) CHR ''/'' = - 1"
      using b by (simp add: strings_LastIndex_absent)
    then show ?thesis using True b by simp
  next
    case False
    then obtain d where d: "dir = d @ [CHR ''/'']"
      using b by (metis append_butlast_last_id)
    then have "Function frame = d @ CHR ''/'' # (pkg @ CHR ''.'' # rest)"
      using b by simp
    moreover have "CHR ''/'' \<notin> set (pkg @ CHR ''.'' # rest)"
      using b by simp
    ultimately have "strings_LastIndex (Function frame) CHR ''/'' = int (length d)"
      using strings_LastIndex_last by metis
    then show ?thesis
      using d b by (simp add: nat_add_distrib)
  qed
  have l2: "strings_Index (pkg @ CHR ''.'' # rest) CHR ''.'' = int (length pkg)"
    using b by (simp add: strings_Index_first)
  have "snd (snd (parseFrame frame))
          = drop (nat (strings_Index
                         (drop (nat (strings_LastIndex (Function frame) CHR ''/'' + 1))
                            (Function frame)) CHR ''.'' + 1))
              (drop (nat (strings_LastIndex (Function frame) CHR ''/'' + 1)) (Function frame))"
    by (simp only: parseFrame_def Let_def snd_conv)
  also have "\<dots> = drop (nat (int (length pkg) + 1)) (pkg @ CHR ''.'' # rest)"
    by (simp only: l1 l2)
  also have "\<dots> = rest"
    by (simp add: nat_add_distrib)
  finally show "snd (snd (parseFrame frame)) = rest" .
next
  show "fst (snd (parseFrame frame)) = Line frame"
    by (simp add: parseFrame_def Let_def)
qed

text \<open>The frame of the specification's example, under any build root and at any line.\<close>

lemma parseFrame_example:
  "parseFrame \<lparr>File = buildRoot @ ''/pkg/sub/file.go'', Line = l,
                Function = ''pkg/sub.Type.Method''\<rparr>
     = (''pkg/sub/file.go'', l, ''Type.Method'')
   \<and> line_of \<lparr>File = ''/home/user/src/pkg/sub/file.go'', Line = l,
               Function = ''pkg/sub.Type.Method''\<rparr>
     = ''pkg/sub/file.go:'' @ Itoa l @ '' Type.Method'' @ [CHR 0x0A]
   \<and> element \<lparr>File = ''/home/user/src/pkg/sub/file.go'', Line = l,
               Function = ''pkg/sub.Type.Method''\<rparr>
     = \<lparr>Fl = ''pkg/sub/file.go:'' @ Itoa l, Fn = ''Type.Method''\<rparr>"
proof -
  have general: "parseFrame \<lparr>File = r @ ''/pkg/sub/file.go'', Line = l,
                   Function = ''pkg/sub.Type.Method''\<rparr>
                 = (''pkg/sub/file.go'', l, ''Type.Method'')" for r
  proof -
    let ?p = "r @ ''/pkg/sub/file.go''"
    have "stripLoop (Suc (Suc (Suc 0))) ?p (int (length ?p))
            = stripLoop (Suc (Suc 0)) ?p (int (length (r @ ''/pkg/sub'')))"
      by (rule stripLoop_step [where b = "''file.go''" and c = "[]"]) simp_all
    also have "\<dots> = stripLoop (Suc 0) ?p (int (length (r @ ''/pkg'')))"
      by (rule stripLoop_step [where b = "''sub''" and c = "''/file.go''"]) simp_all
    also have "\<dots> = stripLoop 0 ?p (int (length r))"
      by (rule stripLoop_step [where b = "''pkg''" and c = "''/sub/file.go''"]) simp_all
    finally have cut: "stripLoop (Suc (Suc (Suc 0))) ?p (int (length ?p)) = int (length r)"
      by simp
    have count: "strings_Count ''pkg/sub.Type.Method'' CHR ''/'' + 2 = Suc (Suc (Suc 0))"
      by (simp add: strings_Count_def)
    have rest: "drop (nat (int (length r) + 1)) ?p = ''pkg/sub/file.go''"
      by (simp add: nat_add_distrib)
    show ?thesis
      unfolding parseFrame_def Let_def Frame.simps count cut rest by simp
  qed
  from general [of "''/home/user/src''"] general [of buildRoot]
  show ?thesis
    by (simp add: line_of_def element_def)
qed

text \<open>
  C7, as amended. For every frame: when the file path ends in as many components as the
  function label implies (the number of separators in the label, plus two), the
  rendered path is exactly those components, whatever build root stands in front of
  them, so the cut is found by counting and not by configuration; when the label is a
  package path, a package name, a dot and the rest, the rendered label is the rest: the
  package path and the package name are removed and the type stays; the line is the
  frame's. A frame with file \<open>/home/user/src/pkg/sub/file.go\<close> and function
  \<open>pkg/sub.Type.Method\<close> is rendered as \<open>pkg/sub/file.go:<line> Type.Method\<close>.
\<close>

theorem parseFrame_keeps_type:
  "(File frame = buildRoot @ concat (map ((#) CHR ''/'') comps)
      \<and> length comps = strings_Count (Function frame) CHR ''/'' + 2
      \<and> (\<forall>c \<in> set comps. CHR ''/'' \<notin> set c)
     \<longrightarrow> fst (parseFrame frame) = tl (concat (map ((#) CHR ''/'') comps)))
   \<and> (Function frame = dir @ pkg @ CHR ''.'' # rest
      \<and> (dir = [] \<or> last dir = CHR ''/'')
      \<and> CHR ''/'' \<notin> set pkg \<and> CHR ''/'' \<notin> set rest \<and> CHR ''.'' \<notin> set pkg
     \<longrightarrow> snd (snd (parseFrame frame)) = rest)
   \<and> fst (snd (parseFrame frame)) = Line frame
   \<and> parseFrame \<lparr>File = buildRoot @ ''/pkg/sub/file.go'', Line = l,
                Function = ''pkg/sub.Type.Method''\<rparr>
     = (''pkg/sub/file.go'', l, ''Type.Method'')
   \<and> line_of \<lparr>File = ''/home/user/src/pkg/sub/file.go'', Line = l,
               Function = ''pkg/sub.Type.Method''\<rparr>
     = ''pkg/sub/file.go:'' @ Itoa l @ '' Type.Method'' @ [CHR 0x0A]
   \<and> element \<lparr>File = ''/home/user/src/pkg/sub/file.go'', Line = l,
               Function = ''pkg/sub.Type.Method''\<rparr>
     = \<lparr>Fl = ''pkg/sub/file.go:'' @ Itoa l, Fn = ''Type.Method''\<rparr>"
  using parseFrame_general [of frame buildRoot comps dir pkg rest]
    parseFrame_example [of buildRoot l]
  by blast

text \<open>
  The specification's example and a frame of the repository's test, with the components
  of the path and the parts of the label written out.
\<close>

theorem parseFrame_keeps_type_witness:
  "(let frame = \<lparr>File = ''/home/user/src/pkg/sub/file.go'', Line = 57,
                   Function = ''pkg/sub.Type.Method''\<rparr>
    in File frame = ''/home/user/src'' @ concat (map ((#) CHR ''/'') [''pkg'', ''sub'', ''file.go''])
       \<and> length [''pkg'', ''sub'', ''file.go''] = strings_Count (Function frame) CHR ''/'' + 2
       \<and> list_all (\<lambda>c. CHR ''/'' \<notin> set c) [''pkg'', ''sub'', ''file.go'']
       \<and> Function frame = ''pkg/'' @ ''sub'' @ CHR ''.'' # ''Type.Method''
       \<and> last ''pkg/'' = CHR ''/''
       \<and> CHR ''/'' \<notin> set ''sub'' \<and> CHR ''/'' \<notin> set ''Type.Method'' \<and> CHR ''.'' \<notin> set ''sub''
       \<and> parseFrame frame = (''pkg/sub/file.go'', 57, ''Type.Method''))
   \<and> File ex_gopanic = ''/usr/local/go/src'' @ concat (map ((#) CHR ''/'') [''runtime'', ''panic.go''])
   \<and> length [''runtime'', ''panic.go''] = strings_Count (Function ex_gopanic) CHR ''/'' + 2
   \<and> Function ex_gopanic = [] @ ''runtime'' @ CHR ''.'' # ''gopanic''
   \<and> parseFrame ex_gopanic = (''runtime/panic.go'', 679, ''gopanic'')"
  using parseFrame_keeps_type
      [where frame = "\<lparr>File = ''/home/user/src/pkg/sub/file.go'', Line = 57,
                         Function = ''pkg/sub.Type.Method''\<rparr>"
         and buildRoot = "''/home/user/src''" and comps = "[''pkg'', ''sub'', ''file.go'']"
         and dir = "''pkg/''" and pkg = "''sub''" and rest = "''Type.Method''"]
    parseFrame_keeps_type
      [where frame = ex_gopanic and buildRoot = "''/usr/local/go/src''"
         and comps = "[''runtime'', ''panic.go'']"
         and dir = "[]" and pkg = "''runtime''" and rest = "''gopanic''"]
  by (simp add: strings_Count_def prod_eq_iff ex_gopanic_def Let_def)

text \<open>
  The claim as stated fails on its own example: at line 57 the label is not \<open>Method\<close>
  and the rendered line is not \<open>pkg/sub/file.go:57 Method\<close>.
\<close>

theorem parseFrame_label_counterexample:
  "snd (snd (parseFrame \<lparr>File = ''/home/user/src/pkg/sub/file.go'', Line = 57,
                          Function = ''pkg/sub.Type.Method''\<rparr>)) \<noteq> ''Method''
   \<and> line_of \<lparr>File = ''/home/user/src/pkg/sub/file.go'', Line = 57,
               Function = ''pkg/sub.Type.Method''\<rparr>
       \<noteq> ''pkg/sub/file.go:57 Method'' @ [CHR 0x0A]
   \<and> line_of \<lparr>File = ''/home/user/src/pkg/sub/file.go'', Line = 57,
               Function = ''pkg/sub.Type.Method''\<rparr>
       = ''pkg/sub/file.go:57 Type.Method'' @ [CHR 0x0A]"
  by code_simp

section \<open>Skipping to the first panic\<close>

lemma countLoop_counts:
  "countLoop fs k = k + int (length (filter isGopanic fs))"
  by (induction fs arbitrary: k) auto

lemma jsonLoop_renders: "n \<le> 0 \<Longrightarrow> jsonLoop fs n acc = acc @ map element fs"
  by (induction fs arbitrary: acc) auto

lemma stringLoop_renders: "n \<le> 0 \<Longrightarrow> stringLoop fs n acc = acc @ concat (map line_of fs)"
  by (induction fs arbitrary: acc) auto

lemma jsonLoop_suppresses:
  "isGopanic g \<Longrightarrow> n = int (length (filter isGopanic pre)) + 1 \<Longrightarrow>
   jsonLoop (pre @ g # rest) n acc = jsonLoop rest 0 acc"
  by (induction pre arbitrary: n) (auto simp: add.commute)

lemma stringLoop_suppresses:
  "isGopanic g \<Longrightarrow> n = int (length (filter isGopanic pre)) + 1 \<Longrightarrow>
   stringLoop (pre @ g # rest) n acc = stringLoop rest 0 acc"
  by (induction pre arbitrary: n) (auto simp: add.commute)

text \<open>
  C8. With \<open>skipToFirstPanic\<close> set, \<open>countPanics\<close> counts every trampoline frame of the
  stack the loops iterate over (all frames but the last, which no loop visits), not
  only the first one; the rendering then drops every frame up to and including the
  trampoline that brings the count down to zero. So when the last trampoline \<open>g\<close> is
  followed by the place of the original panic and its callers, whatever frames and
  however many trampolines come before \<open>g\<close>, the rendering is that of the place of the
  panic and its callers, and its first element is the place of the panic.
\<close>

theorem skipToFirstPanic_surfaces_panic_site:
  assumes "skipToFirstPanic s"
    and "stack s = pre @ g # site # below @ [bottom]"
    and "isGopanic g"
    and "\<forall>f \<in> set (site # below). \<not> isGopanic f"
  shows "countPanics s = int (length (filter isGopanic (butlast (stack s))))
    \<and> countPanics s = int (length (filter isGopanic pre)) + 1
    \<and> JSONStack s = map element (site # below)
    \<and> StringStack s = concat (map line_of (site # below))
    \<and> hd (JSONStack s) = element site"
proof -
  have it: "iterated s = pre @ g # (site # below)"
    using assms(2) by (simp add: iterated_def butlast_append)
  have none: "filter isGopanic (site # below) = []"
    using assms(4) by (simp add: filter_empty_conv)
  have c1: "countPanics s = int (length (filter isGopanic (butlast (stack s))))"
    by (simp add: countPanics_def countLoop_counts iterated_def)
  have c2: "countPanics s = int (length (filter isGopanic pre)) + 1"
    unfolding countPanics_def countLoop_counts it
    using assms(3) none by simp
  have j: "JSONStack s = map element (site # below)"
    unfolding JSONStack_def it
    using assms(1) jsonLoop_suppresses [OF assms(3) c2 [unfolded it], of "site # below" "[]"]
    by (simp add: it jsonLoop_renders)
  have st: "StringStack s = concat (map line_of (site # below))"
    unfolding StringStack_def it
    using assms(1) stringLoop_suppresses [OF assms(3) c2 [unfolded it], of "site # below" "[]"]
    by (simp add: it stringLoop_renders)
  show ?thesis
    using c1 c2 j st by simp
qed

text \<open>
  A stack with two trampolines: a deferred function that recovers, the trampoline of the
  panic raised again, the deferred function that raised it, the trampoline of the
  original panic, the place of that panic, and its callers.
\<close>

theorem skipToFirstPanic_surfaces_panic_site_witness:
  "(let s = \<lparr>skipToFirstPanic = True,
             stack = [ex_recover, ex_gopanic, ex_repanic] @ ex_gopanic # ex_site # [ex_tRunner]
                       @ [ex_goexit],
             msg = ''Hello''\<rparr>
    in skipToFirstPanic s
       \<and> isGopanic ex_gopanic \<and> \<not> isGopanic ex_site \<and> \<not> isGopanic ex_tRunner
       \<and> countPanics s = 2
       \<and> JSONStack s = [element ex_site, element ex_tRunner]
       \<and> hd (JSONStack s)
           = \<lparr>Fl = ''github.com/Cyberax/go-dd-service-base/visibility/log_helpers_test.go:98'',
              Fn = ''TestPanicSearch''\<rparr>
       \<and> StringStack s
           = ''github.com/Cyberax/go-dd-service-base/visibility/log_helpers_test.go:98 TestPanicSearch''
             @ [CHR 0x0A] @ ''testing/testing.go:909 tRunner'' @ [CHR 0x0A])"
proof -
  have g: "isGopanic ex_gopanic"
    by code_simp
  have n1: "\<not> isGopanic ex_site" and n2: "\<not> isGopanic ex_tRunner"
    and n3: "\<not> isGopanic ex_recover" and n4: "\<not> isGopanic ex_repanic"
    by code_simp+
  have e: "element ex_site
      = \<lparr>Fl = ''github.com/Cyberax/go-dd-service-base/visibility/log_helpers_test.go:98'',
         Fn = ''TestPanicSearch''\<rparr>"
    by code_simp
  have l: "line_of ex_site @ line_of ex_tRunner
      = ''github.com/Cyberax/go-dd-service-base/visibility/log_helpers_test.go:98 TestPanicSearch''
        @ [CHR 0x0A] @ ''testing/testing.go:909 tRunner'' @ [CHR 0x0A]"
    by code_simp
  show ?thesis
    using skipToFirstPanic_surfaces_panic_site
      [where s = "\<lparr>skipToFirstPanic = True,
             stack = [ex_recover, ex_gopanic, ex_repanic] @ ex_gopanic # ex_site # [ex_tRunner]
                       @ [ex_goexit],
             msg = ''Hello''\<rparr>"
         and pre = "[ex_recover, ex_gopanic, ex_repanic]" and g = ex_gopanic
         and site = ex_site and below = "[ex_tRunner]" and bottom = ex_goexit]
    by (simp add: g n1 n2 n3 n4 e l Let_def)
qed

end
